theory Spec2Isabelle
  imports Main "HOL-Library.Word" "HOL-Library.Multiset"
begin

section \<open>OpenRCT2 network client: data model\<close>

text \<open>
  A shallow embedding of \<^verbatim>\<open>src/network/NetworkClient.cpp\<close> (class NetworkClient) and of
  the NetworkKey implementation that the repository snapshot stores in
  \<^verbatim>\<open>src/object/WaterObject.h\<close>. Member functions become functions on an explicit state;
  every crash of the C++ (a failed \<^verbatim>\<open>Guard::Assert\<close>, a null pointer dereference, a
  \<^verbatim>\<open>std::string\<close> built from \<^verbatim>\<open>nullptr\<close>, a bad allocation size, a copy past the end
  of a buffer) is a value of type \<open>error\<close>. OpenSSL, SDL, zlib, the platform layer and the
  game loader are not part of the analysed sources; what they return is taken from a record
  of parameters (\<open>Externals\<close>), so every theorem holds for all behaviours of those libraries.
  Console and log output is not modelled.
\<close>

type_synonym uint8 = "8 word"
type_synonym uint16 = "16 word"
type_synonym uint32 = "32 word"
type_synonym int64_t = "64 word"
type_synonym bytes = "uint8 list"

datatype error =
    GuardAssertFailed
  | NullDereference
  | NullString
  | BadAlloc
  | BufferOverrun

datatype NETWORK_MODE = NETWORK_MODE_NONE | NETWORK_MODE_CLIENT

datatype NETWORK_CLIENT_STATUS = NETWORK_CLIENT_STATUS_NONE | NETWORK_CLIENT_STATUS_CONNECTING

datatype SOCKET_STATUS = SOCKET_STATUS_CLOSED

datatype NETWORK_AUTH = NETWORK_AUTH_NONE | NETWORK_AUTH_REQUESTED

datatype NETWORK_COMMAND = NETWORK_COMMAND_AUTH | NETWORK_COMMAND_GAMEINFO | NETWORK_COMMAND_PING

datatype rct_string_id = STR_MULTIPLAYER_VERIFICATION_FAILURE

subsection \<open>OpenSSL objects\<close>

text \<open>An RSA key is opaque key material; an \<^verbatim>\<open>EVP_PKEY\<close> holds the RSA pointer that
  \<^verbatim>\<open>EVP_PKEY_set1_RSA\<close> stored in it, which is null when the PEM parser returned null.\<close>

datatype RSA = RSA bytes

datatype EVP_PKEY = EVP_PKEY "RSA option"

fun EVP_PKEY_get1_RSA :: "EVP_PKEY \<Rightarrow> RSA option" where
  "EVP_PKEY_get1_RSA (EVP_PKEY r) = r"

text \<open>What \<^verbatim>\<open>NetworkKey::Sign\<close>'s chain of \<^verbatim>\<open>EVP_DigestSign*\<close> calls does: it fails before
  the signature length was written (\<open>SignFailed None\<close>), fails after the first
  \<^verbatim>\<open>EVP_DigestSignFinal\<close> wrote the length \<open>n\<close> (\<open>SignFailed (Some n)\<close>), or produces a
  signature.\<close>

datatype sign_outcome = SignFailed "nat option" | SignOk bytes

subsection \<open>Files\<close>

text \<open>An \<^verbatim>\<open>SDL_RWops\<close>: the value its \<^verbatim>\<open>size\<close> callback reports (an \<^verbatim>\<open>int64_t\<close>, -1 for
  unknown), its content and the read position.\<close>

record SDL_RWops =
  rw_size :: int64_t
  rw_data :: bytes
  rw_pos :: nat

text \<open>\<^verbatim>\<open>file->read(file, buf, 1, n)\<close> into a fresh buffer \<open>fresh\<close> of \<open>n\<close> bytes: the bytes
  available from the read position overwrite the front of the buffer.\<close>

definition rw_read :: "SDL_RWops \<Rightarrow> nat \<Rightarrow> bytes \<Rightarrow> bytes \<times> SDL_RWops" where
  "rw_read file n fresh =
     (let got = take n (drop (rw_pos file) (rw_data file))
      in (got @ drop (length got) (take n fresh), file\<lparr>rw_pos := rw_pos file + length got\<rparr>))"

text \<open>\<^verbatim>\<open>file->write(file, buf, n, 1)\<close> on a file opened with \<^verbatim>\<open>"wb+"\<close>.\<close>

definition rw_write :: "SDL_RWops \<Rightarrow> bytes \<Rightarrow> SDL_RWops" where
  "rw_write file buf =
     file\<lparr>rw_data := take (rw_pos file) (rw_data file) @ buf
                        @ drop (rw_pos file + length buf) (rw_data file),
           rw_pos := rw_pos file + length buf\<rparr>"

subsection \<open>Game commands and packets\<close>

text \<open>Modelled from the spec: the declaration of \<^verbatim>\<open>GameCommand\<close> (NetworkTypes.h) is not
  among the sources. The spec describes it as the seven machine-word arguments of the
  command dispatcher, a target tick and a callback identifier, stored in a container
  ordered by tick with ties allowed.\<close>

record GameCommand =
  tick :: uint32
  eax :: uint32
  ebx :: uint32
  ecx :: uint32
  edx :: uint32
  esi :: uint32
  edi :: uint32
  ebp :: uint32
  callback :: uint8

text \<open>A \<^verbatim>\<open>NetworkPacket\<close> (not among the sources) is modelled as the sequence of writes
  performed on it; \<open>Raw p n\<close> is \<^verbatim>\<open>Write(p, n)\<close> with a possibly null pointer \<open>p\<close>.\<close>

datatype packet_item =
    Cmd NETWORK_COMMAND
  | U32 uint32
  | Str string
  | Raw "bytes option" nat

type_synonym NetworkPacket = "packet_item list"

record TcpSocket =
  ConnectAsync_target :: "(string \<times> uint16) option"
  Disconnect_requested :: bool

record NetworkConnection =
  Socket :: "TcpSocket option"
  AuthStatus :: NETWORK_AUTH
  LastDisconnectReason :: "rct_string_id option"
  QueuedPackets :: "NetworkPacket list"

text \<open>\<^verbatim>\<open>TcpSocket\<close> and \<^verbatim>\<open>NetworkConnection\<close> are not among the sources. A socket records
  the target of \<^verbatim>\<open>ConnectAsync\<close> and whether \<^verbatim>\<open>Disconnect\<close> was called; a connection
  records what the client reads and writes. A new connection is taken to have no socket, no
  disconnect reason, no queued packet and the authentication status none.\<close>

definition CreateTcpSocket :: TcpSocket where
  "CreateTcpSocket = \<lparr>ConnectAsync_target = None, Disconnect_requested = False\<rparr>"

definition ConnectAsync :: "string \<Rightarrow> uint16 \<Rightarrow> TcpSocket \<Rightarrow> TcpSocket" where
  "ConnectAsync host port sock = sock\<lparr>ConnectAsync_target := Some (host, port)\<rparr>"

definition Disconnect :: "TcpSocket \<Rightarrow> TcpSocket" where
  "Disconnect sock = sock\<lparr>Disconnect_requested := True\<rparr>"

definition NetworkConnection_new :: NetworkConnection where
  "NetworkConnection_new =
     \<lparr>Socket = None, AuthStatus = NETWORK_AUTH_NONE, LastDisconnectReason = None,
      QueuedPackets = []\<rparr>"

text \<open>Calls into the user interface, the chat and the game, in the order they are made.\<close>

datatype effect =
    ChatStartLogging
  | ChatShowChatHelp
  | ChatShowMessage string
  | WindowNetworkStatusOpen nat nat
  | WindowNetworkStatusClose
  | GameLoadNetwork bytes
  | GameLoadInit
  | GameDoCommandLoadOrQuit

subsection \<open>Parameters: the libraries and the platform\<close>

record Externals =
  \<comment> \<open>Guard::Assert: whether a failed assertion aborts (debug) or is compiled out\<close>
  assert_aborts :: bool
  \<comment> \<open>configuration and constants of headers that are not among the sources\<close>
  player_name :: string
  NETWORK_STREAM_ID :: string
  SV6_HEADER_ZLIB_COMPRESSED :: bytes
  GetPrivateKeyPath :: "string \<Rightarrow> string"
  GetPublicKeyPath :: "string \<Rightarrow> string \<Rightarrow> string"
  GetKeysDirectory :: string
  \<comment> \<open>platform and SDL\<close>
  platform_ensure_directory_exists :: "string \<Rightarrow> bool"
  can_open_wb :: "string \<Rightarrow> bool"
  can_open_rb :: "string \<Rightarrow> bool"
  size_known :: "string \<Rightarrow> bool"
  new_char :: "nat \<Rightarrow> bytes"
  uninitialised_size_t :: nat
  \<comment> \<open>OpenSSL\<close>
  EVP_PKEY_CTX_set_rsa_keygen_bits :: bool
  EVP_PKEY_keygen_init :: bool
  EVP_PKEY_keygen :: "EVP_PKEY option"
  BIO_new_ok :: bool
  PEM_read_bio_RSAPrivateKey :: "bytes \<Rightarrow> RSA option"
  PEM_read_bio_RSAPublicKey :: "bytes \<Rightarrow> RSA option"
  RSA_check_key :: "RSA \<Rightarrow> bool"
  PEM_write_bio_RSAPrivateKey :: "RSA \<Rightarrow> bytes option"
  PEM_write_bio_RSAPublicKey :: "RSA \<Rightarrow> bytes option"
  EVP_Digest_sha1 :: "bytes \<Rightarrow> bytes option"
  EVP_DigestSign :: "EVP_PKEY option \<Rightarrow> bytes \<Rightarrow> sign_outcome"
  \<comment> \<open>zlib and the game\<close>
  util_zlib_inflate :: "bytes \<Rightarrow> bytes option"
  game_load_network :: "bytes \<Rightarrow> uint32 option"

text \<open>\<open>game_load_network ext d = Some t\<close>: loading the snapshot \<open>d\<close> succeeds and leaves
  \<^verbatim>\<open>gCurrentTicks = t\<close>; \<open>None\<close>: the loader rejects it. \<open>new_char n\<close> is the content of a
  freshly allocated \<^verbatim>\<open>new char[n]\<close>; \<open>uninitialised_size_t\<close> is the value of an
  uninitialised local \<^verbatim>\<open>size_t\<close>.\<close>

definition Guard_Assert :: "Externals \<Rightarrow> bool \<Rightarrow> bool" where
  "Guard_Assert ext expression = (expression \<or> \<not> assert_aborts ext)"

section \<open>NetworkKey\<close>

record NetworkKey =
  m_ctx :: "unit option"
  m_key :: "EVP_PKEY option"

definition Unload :: "NetworkKey \<Rightarrow> NetworkKey" where
  "Unload k = (if m_key k \<noteq> None then k\<lparr>m_key := None\<rparr> else k)"

definition Generate :: "Externals \<Rightarrow> NetworkKey \<Rightarrow> bool \<times> NetworkKey" where
  "Generate ext k =
     (if m_ctx k = None then (False, k)
      else if \<not> EVP_PKEY_CTX_set_rsa_keygen_bits ext then (False, k)
      else if \<not> EVP_PKEY_keygen_init ext then (False, k)
      else case EVP_PKEY_keygen ext of
             None \<Rightarrow> (False, k)
           | Some pk \<Rightarrow> (True, k\<lparr>m_key := Some pk\<rparr>))"

definition BIO_new_mem_buf :: "Externals \<Rightarrow> bytes \<Rightarrow> bytes option" where
  "BIO_new_mem_buf ext buf = (if BIO_new_ok ext then Some buf else None)"

text \<open>\<^verbatim>\<open>LoadPrivate\<close> passes what \<^verbatim>\<open>PEM_read_bio_RSAPrivateKey\<close> returned to
  \<^verbatim>\<open>RSA_check_key\<close> without a null test: for a content that does not parse, the check
  dereferences a null pointer.\<close>

definition LoadPrivate ::
  "Externals \<Rightarrow> SDL_RWops \<Rightarrow> NetworkKey \<Rightarrow> error + (bool \<times> SDL_RWops \<times> NetworkKey)" where
  "LoadPrivate ext file k =
     (let size = rw_size file in
      if size = - 1 then Inr (False, file, k)
      else if sint size > 4 * 1024 * 1024 then Inr (False, file, k)
      else if sint size < 0 then Inl BadAlloc
      else
        let n = nat (sint size);
            (priv_key, file') = rw_read file n (new_char ext n)
        in case BIO_new_mem_buf ext priv_key of
             None \<Rightarrow> Inr (False, file', k)
           | Some bio \<Rightarrow>
               (case PEM_read_bio_RSAPrivateKey ext bio of
                  None \<Rightarrow> Inl NullDereference
                | Some rsa \<Rightarrow>
                    if \<not> RSA_check_key ext rsa then Inr (False, file', k)
                    else Inr (True, file', k\<lparr>m_key := Some (EVP_PKEY (Some rsa))\<rparr>)))"

definition LoadPublic ::
  "Externals \<Rightarrow> SDL_RWops \<Rightarrow> NetworkKey \<Rightarrow> error + (bool \<times> SDL_RWops \<times> NetworkKey)" where
  "LoadPublic ext file k =
     (let size = rw_size file in
      if size = - 1 then Inr (False, file, k)
      else if sint size > 4 * 1024 * 1024 then Inr (False, file, k)
      else if sint size < 0 then Inl BadAlloc
      else
        let n = nat (sint size);
            (pub_key, file') = rw_read file n (new_char ext n)
        in case BIO_new_mem_buf ext pub_key of
             None \<Rightarrow> Inr (False, file', k)
           | Some bio \<Rightarrow>
               let rsa = PEM_read_bio_RSAPublicKey ext bio in
               Inr (True, file', k\<lparr>m_key := Some (EVP_PKEY rsa)\<rparr>))"

definition SavePrivate :: "Externals \<Rightarrow> SDL_RWops \<Rightarrow> NetworkKey \<Rightarrow> bool \<times> SDL_RWops" where
  "SavePrivate ext file k =
     (case m_key k of
        None \<Rightarrow> (False, file)
      | Some pk \<Rightarrow>
          (case EVP_PKEY_get1_RSA pk of
             None \<Rightarrow> (False, file)
           | Some rsa \<Rightarrow>
               (if \<not> RSA_check_key ext rsa then (False, file)
                else if \<not> BIO_new_ok ext then (False, file)
                else (case PEM_write_bio_RSAPrivateKey ext rsa of
                        None \<Rightarrow> (False, file)
                      | Some pem_key \<Rightarrow> (True, rw_write file pem_key)))))"

definition SavePublic :: "Externals \<Rightarrow> SDL_RWops \<Rightarrow> NetworkKey \<Rightarrow> bool \<times> SDL_RWops" where
  "SavePublic ext file k =
     (case m_key k of
        None \<Rightarrow> (False, file)
      | Some pk \<Rightarrow>
          (case EVP_PKEY_get1_RSA pk of
             None \<Rightarrow> (False, file)
           | Some rsa \<Rightarrow>
               (if \<not> BIO_new_ok ext then (False, file)
                else (case PEM_write_bio_RSAPublicKey ext rsa of
                        None \<Rightarrow> (False, file)
                      | Some pem_key \<Rightarrow> (True, rw_write file pem_key)))))"

text \<open>The C string stored in a buffer: the bytes before the first NUL, as characters.\<close>

definition c_str :: "bytes \<Rightarrow> string" where
  "c_str buf = map (\<lambda>b. char_of (unat b)) (takeWhile (\<lambda>b. b \<noteq> 0) buf)"

text \<open>Every failure branch of \<^verbatim>\<open>PublicKeyString\<close> executes \<^verbatim>\<open>return nullptr\<close> in a function
  returning \<^verbatim>\<open>std::string\<close>: the string is constructed from a null pointer.\<close>

definition PublicKeyString :: "Externals \<Rightarrow> NetworkKey \<Rightarrow> error + string" where
  "PublicKeyString ext k =
     (case m_key k of
        None \<Rightarrow> Inl NullString
      | Some pk \<Rightarrow>
          (case EVP_PKEY_get1_RSA pk of
             None \<Rightarrow> Inl NullString
           | Some rsa \<Rightarrow>
               (if \<not> BIO_new_ok ext then Inl NullString
                else (case PEM_write_bio_RSAPublicKey ext rsa of
                        None \<Rightarrow> Inl NullString
                      | Some pem_key \<Rightarrow> Inr (c_str pem_key)))))"

definition hex_digit :: "nat \<Rightarrow> char" where
  "hex_digit d = (''0123456789abcdef'' ! d)"

definition hex02x :: "uint8 \<Rightarrow> string" where
  "hex02x b = [hex_digit (unat b div 16), hex_digit (unat b mod 16)]"

definition PublicKeyHash :: "Externals \<Rightarrow> NetworkKey \<Rightarrow> error + string" where
  "PublicKeyHash ext k =
     (case PublicKeyString ext k of
        Inl e \<Rightarrow> Inl e
      | Inr pubkey \<Rightarrow>
          (if pubkey = [] then Inl NullString
           else (case EVP_Digest_sha1 ext (map (\<lambda>c. of_nat (of_char c)) pubkey) of
                   None \<Rightarrow> Inl NullString
                 | Some digest \<Rightarrow> Inr (concat (map hex02x digest)))))"

text \<open>\<^verbatim>\<open>Sign(md, len, &signature, &out_size)\<close>: the result, the signature pointer (set to null
  first) and the content of \<^verbatim>\<open>out_size\<close>, which keeps the caller's value when nothing wrote
  it.\<close>

definition Sign ::
  "Externals \<Rightarrow> NetworkKey \<Rightarrow> bytes \<Rightarrow> nat \<Rightarrow> bool \<times> bytes option \<times> nat" where
  "Sign ext k md out_size =
     (case EVP_DigestSign ext (m_key k) md of
        SignFailed None \<Rightarrow> (False, None, out_size)
      | SignFailed (Some n) \<Rightarrow> (False, None, n)
      | SignOk sig \<Rightarrow> (True, Some sig, length sig))"

section \<open>NetworkClient\<close>

text \<open>The state: the process-wide mode of \<^verbatim>\<open>Network2\<close>, the files on disk, the calls
  made to the outside, and the fields of the class. The chat, group manager, player list,
  server info and player id are not touched by the functions below and are left out.\<close>

record NetworkClient =
  Network2_Mode :: NETWORK_MODE
  disk :: "string \<Rightarrow> bytes option"
  effects :: "effect list"
  status :: NETWORK_CLIENT_STATUS
  lastConnectStatus :: SOCKET_STATUS
  serverConnection :: "NetworkConnection option"
  key :: NetworkKey
  challenge :: bytes
  mapBuffer :: bytes
  serverTick :: uint32
  serverSrand0 :: uint32
  serverSrand0Tick :: uint32
  desynchronised :: bool
  gameCommandQueue :: "GameCommand list"

subsection \<open>Files on disk\<close>

definition platform_file_exists :: "NetworkClient \<Rightarrow> string \<Rightarrow> bool" where
  "platform_file_exists s path = (disk s path \<noteq> None)"

text \<open>\<^verbatim>\<open>SDL_RWFromFile(path, "rb")\<close>: null when the file cannot be opened.\<close>

definition SDL_RWFromFile_rb :: "Externals \<Rightarrow> NetworkClient \<Rightarrow> string \<Rightarrow> SDL_RWops option" where
  "SDL_RWFromFile_rb ext s path =
     (case disk s path of
        None \<Rightarrow> None
      | Some content \<Rightarrow>
          (if can_open_rb ext path
           then Some \<lparr>rw_size = (if size_known ext path then of_nat (length content) else - 1),
                      rw_data = content, rw_pos = 0\<rparr>
           else None))"

text \<open>\<^verbatim>\<open>SDL_RWFromFile(path, "wb+")\<close>: an empty file, or null. \<^verbatim>\<open>SDL_RWclose\<close> of such a
  file leaves what was written on disk.\<close>

definition SDL_RWFromFile_wb :: "Externals \<Rightarrow> string \<Rightarrow> SDL_RWops option" where
  "SDL_RWFromFile_wb ext path =
     (if can_open_wb ext path then Some \<lparr>rw_size = 0, rw_data = [], rw_pos = 0\<rparr> else None)"

definition SDL_RWclose_wb :: "string \<Rightarrow> SDL_RWops \<Rightarrow> NetworkClient \<Rightarrow> NetworkClient" where
  "SDL_RWclose_wb path file s = s\<lparr>disk := (disk s)(path \<mapsto> rw_data file)\<rparr>"

subsection \<open>Connection life cycle\<close>

definition Close :: "NetworkClient \<Rightarrow> NetworkClient" where
  "Close s = s\<lparr>Network2_Mode := NETWORK_MODE_NONE\<rparr>"

definition SetupUserKey :: "Externals \<Rightarrow> NetworkClient \<Rightarrow> error + (bool \<times> NetworkClient)" where
  "SetupUserKey ext s =
     (let keyPath = GetPrivateKeyPath ext (player_name ext) in
      if \<not> platform_file_exists s keyPath then
        (let s1 = s\<lparr>key := snd (Generate ext (key s))\<rparr>;
             keysDirectory = GetKeysDirectory ext
         in if \<not> platform_ensure_directory_exists ext keysDirectory then Inr (False, s1)
            else (case SDL_RWFromFile_wb ext keyPath of
                    None \<Rightarrow> Inr (False, s1)
                  | Some privkey \<Rightarrow>
                      (let s2 = SDL_RWclose_wb keyPath (snd (SavePrivate ext privkey (key s1))) s1
                       in case PublicKeyHash ext (key s2) of
                            Inl e \<Rightarrow> Inl e
                          | Inr hash \<Rightarrow>
                              (let keyPath' = GetPublicKeyPath ext (player_name ext) hash
                               in case SDL_RWFromFile_wb ext keyPath' of
                                    None \<Rightarrow> Inr (False, s2)
                                  | Some pubkey \<Rightarrow>
                                      Inr (True, SDL_RWclose_wb keyPath'
                                                  (snd (SavePublic ext pubkey (key s2))) s2)))))
      else
        (case SDL_RWFromFile_rb ext s keyPath of
           None \<Rightarrow> Inr (False, s)
         | Some privkey \<Rightarrow>
             (case LoadPrivate ext privkey (key s) of
                Inl e \<Rightarrow> Inl e
              | Inr (ok, file', k') \<Rightarrow> Inr (ok, s\<lparr>key := Unload k'\<rparr>))))"

definition Begin ::
  "Externals \<Rightarrow> string \<Rightarrow> uint16 \<Rightarrow> NetworkClient \<Rightarrow> error + (bool \<times> NetworkClient)" where
  "Begin ext host port s =
     (let s1 = Close s in
      if \<not> Guard_Assert ext (Network2_Mode s1 = NETWORK_MODE_NONE) then Inl GuardAssertFailed
      else
        let s2 = s1\<lparr>Network2_Mode := NETWORK_MODE_CLIENT\<rparr> in
        if \<not> Guard_Assert ext (serverConnection s2 = None) then Inl GuardAssertFailed
        else
          let s3 = s2\<lparr>serverConnection :=
                         Some (NetworkConnection_new
                           \<lparr>Socket := Some (ConnectAsync host port CreateTcpSocket)\<rparr>),
                       status := NETWORK_CLIENT_STATUS_CONNECTING,
                       lastConnectStatus := SOCKET_STATUS_CLOSED,
                       effects := effects s2 @ [ChatStartLogging]\<rparr>
          in case SetupUserKey ext s3 of
               Inl e \<Rightarrow> Inl e
             | Inr (ok, s4) \<Rightarrow> (if \<not> ok then Inr (False, s4) else Inr (True, s4)))"

subsection \<open>Authentication\<close>

definition LoadPrivateKey :: "Externals \<Rightarrow> NetworkClient \<Rightarrow> error + (bool \<times> NetworkClient)" where
  "LoadPrivateKey ext s =
     (let keyPath = GetPrivateKeyPath ext (player_name ext) in
      if platform_file_exists s keyPath then
        (case SDL_RWFromFile_rb ext s keyPath of
           None \<Rightarrow> Inl NullDereference
         | Some privkey \<Rightarrow>
             (case LoadPrivate ext privkey (key s) of
                Inl e \<Rightarrow> Inl e
              | Inr (result, file', k') \<Rightarrow> Inr (result, s\<lparr>key := k'\<rparr>)))
      else Inr (False, s))"

definition SendAuthentication ::
  "Externals \<Rightarrow> string \<Rightarrow> string \<Rightarrow> string \<Rightarrow> bytes option \<Rightarrow> nat \<Rightarrow> NetworkClient
     \<Rightarrow> error + NetworkClient" where
  "SendAuthentication ext playerName password pubkey signature sigsize s =
     (if \<not> Guard_Assert ext (sigsize \<le> 4294967295) then Inl GuardAssertFailed
      else
        let packet = [Cmd NETWORK_COMMAND_AUTH, Str (NETWORK_STREAM_ID ext), Str playerName,
                      Str password, Str pubkey, U32 (of_nat sigsize), Raw signature sigsize]
        in case serverConnection s of
             None \<Rightarrow> Inl NullDereference
           | Some c \<Rightarrow>
               Inr (s\<lparr>serverConnection :=
                         Some (c\<lparr>AuthStatus := NETWORK_AUTH_REQUESTED,
                                 QueuedPackets := QueuedPackets c @ [packet]\<rparr>)\<rparr>))"

text \<open>The two statements \<^verbatim>\<open>_serverConnection->SetLastDisconnectReason(...)\<close> and
  \<^verbatim>\<open>_serverConnection->Socket->Disconnect()\<close> of \<^verbatim>\<open>HandleChallenge\<close>.\<close>

definition DisconnectVerificationFailure :: "NetworkClient \<Rightarrow> error + NetworkClient" where
  "DisconnectVerificationFailure s =
     (case serverConnection s of
        None \<Rightarrow> Inl NullDereference
      | Some c \<Rightarrow>
          (case Socket c of
             None \<Rightarrow> Inl NullDereference
           | Some sock \<Rightarrow>
               Inr (s\<lparr>serverConnection :=
                         Some (c\<lparr>LastDisconnectReason := Some STR_MULTIPLAYER_VERIFICATION_FAILURE,
                                 Socket := Some (Disconnect sock)\<rparr>)\<rparr>)))"

definition HandleChallenge :: "Externals \<Rightarrow> bytes \<Rightarrow> NetworkClient \<Rightarrow> error + NetworkClient" where
  "HandleChallenge ext chal s =
     (let s1 = s\<lparr>challenge := chal\<rparr> in
      case PublicKeyString ext (key s1) of
        Inl e \<Rightarrow> Inl e
      | Inr pubkey \<Rightarrow>
          (case LoadPrivateKey ext s1 of
             Inl e \<Rightarrow> Inl e
           | Inr (loaded, s2) \<Rightarrow>
               (if \<not> loaded then DisconnectVerificationFailure s2
                else
                  (case Sign ext (key s2) (challenge s2) (uninitialised_size_t ext) of
                     (result, signature, sigsize) \<Rightarrow>
                       (if \<not> result then DisconnectVerificationFailure s2
                        else SendAuthentication ext (player_name ext) [] pubkey signature sigsize
                               (s2\<lparr>key := Unload (key s2)\<rparr>))))))"

definition SendPassword :: "Externals \<Rightarrow> string \<Rightarrow> NetworkClient \<Rightarrow> error + NetworkClient" where
  "SendPassword ext password s =
     (case PublicKeyString ext (key s) of
        Inl e \<Rightarrow> Inl e
      | Inr pubkey \<Rightarrow>
          (case LoadPrivateKey ext s of
             Inl e \<Rightarrow> Inl e
           | Inr (loaded, s2) \<Rightarrow>
               (if \<not> loaded then Inr s2
                else
                  (case Sign ext (key s2) (challenge s2) (uninitialised_size_t ext) of
                     (result, signature, sigsize) \<Rightarrow>
                       SendAuthentication ext (player_name ext) password pubkey signature sigsize
                         (s2\<lparr>key := Unload (key s2)\<rparr>)))))"

subsection \<open>Map transfer\<close>

definition LoadMap :: "Externals \<Rightarrow> bytes \<Rightarrow> NetworkClient \<Rightarrow> NetworkClient" where
  "LoadMap ext sv6Data s =
     (case game_load_network ext sv6Data of
        Some gCurrentTicks \<Rightarrow>
          s\<lparr>effects := effects s @ [GameLoadNetwork sv6Data, GameLoadInit, ChatShowChatHelp],
            gameCommandQueue := [],
            serverTick := gCurrentTicks,
            serverSrand0Tick := 0,
            desynchronised := False\<rparr>
      | None \<Rightarrow>
          s\<lparr>effects := effects s @ [GameLoadNetwork sv6Data, GameDoCommandLoadOrQuit]\<rparr>)"

text \<open>\<^verbatim>\<open>String::Equals((utf8 *)mapData, SV6_HEADER_ZLIB_COMPRESSED)\<close> compares the C string at
  the start of the buffer with the constant: equal when the buffer starts with the constant
  and a NUL. The comparison stops at the first difference; it runs past the end of the
  buffer when the whole buffer agrees with the constant and is too short to decide.\<close>

definition String_Equals :: "bytes \<Rightarrow> bytes \<Rightarrow> error + bool" where
  "String_Equals buf b =
     (if take (length b + 1) buf = b @ [0] then Inr True
      else if buf = take (length buf) (b @ [0]) then Inl BufferOverrun
      else Inr False)"

definition ProcessMap :: "Externals \<Rightarrow> bytes \<Rightarrow> NetworkClient \<Rightarrow> error + NetworkClient" where
  "ProcessMap ext mapData s =
     (case String_Equals mapData (SV6_HEADER_ZLIB_COMPRESSED ext) of
        Inl e \<Rightarrow> Inl e
      | Inr compressed \<Rightarrow>
          (if compressed then
             (let headerSize = length (SV6_HEADER_ZLIB_COMPRESSED ext) + 1;
                  bufferBody = drop headerSize mapData
              in case util_zlib_inflate ext bufferBody of
                   None \<Rightarrow> Inr (Close s)
                 | Some sv6Data \<Rightarrow> Inr (LoadMap ext sv6Data s))
           else Inr (LoadMap ext mapData s)))"

text \<open>\<^verbatim>\<open>_mapBuffer.resize(n)\<close>: new bytes are zero.\<close>

definition resize :: "nat \<Rightarrow> bytes \<Rightarrow> bytes" where
  "resize n buf = take n buf @ replicate (n - length buf) 0"

text \<open>\<^verbatim>\<open>Memory::Copy(buf.data() + offset, chunk, size)\<close> inside a buffer that holds it.\<close>

definition Memory_Copy :: "bytes \<Rightarrow> nat \<Rightarrow> bytes \<Rightarrow> bytes" where
  "Memory_Copy buf offset chunk = take offset buf @ chunk @ drop (offset + length chunk) buf"

text \<open>The chunk \<^verbatim>\<open>(dataChunk, dataChunkSize)\<close> is a list, its size the list's length. A copy
  that does not fit the buffer is an error of the model. Sizes are natural numbers: once the
  copy fits, \<open>offset + dataChunkSize\<close> is at most the buffer's size and cannot wrap.\<close>

definition ReceiveMap ::
  "Externals \<Rightarrow> nat \<Rightarrow> nat \<Rightarrow> bytes \<Rightarrow> NetworkClient \<Rightarrow> error + NetworkClient" where
  "ReceiveMap ext totalDataSize offset dataChunk s =
     (let dataChunkSize = length dataChunk;
          s1 = s\<lparr>effects := effects s @ [WindowNetworkStatusOpen
                     ((offset + dataChunkSize) div 1024) (totalDataSize div 1024)]\<rparr>;
          s2 = (if totalDataSize > length (mapBuffer s1)
                then s1\<lparr>mapBuffer := resize totalDataSize (mapBuffer s1)\<rparr> else s1)
      in if offset + dataChunkSize > length (mapBuffer s2) then Inl BufferOverrun
         else
           let s3 = s2\<lparr>mapBuffer := Memory_Copy (mapBuffer s2) offset dataChunk\<rparr> in
           if offset + dataChunkSize = totalDataSize then
             (case ProcessMap ext (mapBuffer s3)
                     (s3\<lparr>effects := effects s3 @ [WindowNetworkStatusClose]\<rparr>) of
                Inl e \<Rightarrow> Inl e
              | Inr s4 \<Rightarrow> Inr (s4\<lparr>mapBuffer := resize 0 (mapBuffer s4)\<rparr>))
           else Inr s3)"

subsection \<open>Chat, commands and ticks\<close>

definition ReceiveChatMessage :: "string \<Rightarrow> NetworkClient \<Rightarrow> NetworkClient" where
  "ReceiveChatMessage message s = s\<lparr>effects := effects s @ [ChatShowMessage message]\<rparr>"

text \<open>Modelled from the spec: \<^verbatim>\<open>GameCommand::operator<\<close> belongs to the declaration that
  is not among the sources. The spec says the container is ordered by tick.\<close>

definition GameCommand_less :: "GameCommand \<Rightarrow> GameCommand \<Rightarrow> bool" where
  "GameCommand_less a b = (tick a < tick b)"

text \<open>\<^verbatim>\<open>std::multiset::insert\<close>: the container is the list of its elements in iteration
  order; a new element goes after every element that is not greater (the upper bound of
  the equivalent elements).\<close>

fun multiset_insert :: "GameCommand \<Rightarrow> GameCommand list \<Rightarrow> GameCommand list" where
  "multiset_insert c [] = [c]"
| "multiset_insert c (x # xs) =
     (if GameCommand_less c x then c # x # xs else x # multiset_insert c xs)"

definition RecieveGameCommand :: "GameCommand \<Rightarrow> NetworkClient \<Rightarrow> NetworkClient" where
  "RecieveGameCommand gameCommand s =
     s\<lparr>gameCommandQueue := multiset_insert gameCommand (gameCommandQueue s)\<rparr>"

definition RecieveTick :: "uint32 \<Rightarrow> uint32 \<Rightarrow> NetworkClient \<Rightarrow> NetworkClient" where
  "RecieveTick tick' srand0 s =
     (let s1 = s\<lparr>serverTick := tick'\<rparr> in
      if serverSrand0Tick s1 = 0
      then s1\<lparr>serverSrand0 := srand0, serverSrand0Tick := tick'\<rparr>
      else s1)"

text \<open>Modelled from the spec: the driver that drains the queue is not among the sources.
  The spec: it removes and returns, in tick order, all commands with target tick at most
  the simulation's current tick. The result is the drained commands and the rest.\<close>

definition DrainUpTo :: "uint32 \<Rightarrow> GameCommand list \<Rightarrow> GameCommand list \<times> GameCommand list" where
  "DrainUpTo t q = (takeWhile (\<lambda>c. tick c \<le> t) q, dropWhile (\<lambda>c. tick c \<le> t) q)"

subsection \<open>Sequences of messages\<close>

fun RecieveTicks :: "(uint32 \<times> uint32) list \<Rightarrow> NetworkClient \<Rightarrow> NetworkClient" where
  "RecieveTicks [] s = s"
| "RecieveTicks ((tick', srand0) # ts) s = RecieveTicks ts (RecieveTick tick' srand0 s)"

fun RecieveGameCommands :: "GameCommand list \<Rightarrow> NetworkClient \<Rightarrow> NetworkClient" where
  "RecieveGameCommands [] s = s"
| "RecieveGameCommands (c # cs) s = RecieveGameCommands cs (RecieveGameCommand c s)"

fun ReceiveMaps ::
  "Externals \<Rightarrow> (nat \<times> nat \<times> bytes) list \<Rightarrow> NetworkClient \<Rightarrow> error + NetworkClient" where
  "ReceiveMaps ext [] s = Inr s"
| "ReceiveMaps ext ((totalDataSize, offset, dataChunk) # chunks) s =
     (case ReceiveMap ext totalDataSize offset dataChunk s of
        Inl e \<Rightarrow> Inl e
      | Inr s' \<Rightarrow> ReceiveMaps ext chunks s')"

subsection \<open>Failure of key setup\<close>

text \<open>The failures of key setup, read off the environment before \<^verbatim>\<open>SetupUserKey\<close>
  runs. Without a private key file: the keys directory cannot be created, or the private key
  file cannot be opened for writing, or the public key file (named after the hash of the
  generated key) cannot be opened for writing. With a private key file: it cannot be opened,
  or \<^verbatim>\<open>LoadPrivate\<close> returns false (the size is unknown or too large, the memory BIO
  cannot be made, or the decoded key fails the check). A run in which \<^verbatim>\<open>LoadPrivate\<close> or
  \<^verbatim>\<open>PublicKeyHash\<close> does not return is not among them.\<close>

definition key_setup_fails :: "Externals \<Rightarrow> NetworkClient \<Rightarrow> bool" where
  "key_setup_fails ext s =
     (let keyPath = GetPrivateKeyPath ext (player_name ext) in
      if \<not> platform_file_exists s keyPath then
        (if \<not> platform_ensure_directory_exists ext (GetKeysDirectory ext) then True
         else if \<not> can_open_wb ext keyPath then True
         else (case PublicKeyHash ext (snd (Generate ext (key s))) of
                 Inl e \<Rightarrow> False
               | Inr hash \<Rightarrow> \<not> can_open_wb ext (GetPublicKeyPath ext (player_name ext) hash)))
      else
        (case SDL_RWFromFile_rb ext s keyPath of
           None \<Rightarrow> True
         | Some privkey \<Rightarrow>
             (case LoadPrivate ext privkey (key s) of
                Inl e \<Rightarrow> False
              | Inr (ok, file', k') \<Rightarrow> \<not> ok)))"

section \<open>Concrete inputs\<close>

text \<open>The client as its constructor and member initialisers leave it, in a process whose
  network mode is none and whose disk holds no key file.\<close>

definition NetworkClient_new :: NetworkClient where
  "NetworkClient_new =
     \<lparr>Network2_Mode = NETWORK_MODE_NONE, disk = Map.empty, effects = [],
      status = NETWORK_CLIENT_STATUS_NONE, lastConnectStatus = SOCKET_STATUS_CLOSED,
      serverConnection = None, key = \<lparr>m_ctx = Some (), m_key = None\<rparr>,
      challenge = [], mapBuffer = [], serverTick = 0, serverSrand0 = 0, serverSrand0Tick = 0,
      desynchronised = False, gameCommandQueue = []\<rparr>"

text \<open>One behaviour of the libraries, with toy cryptography: every call succeeds, a PEM
  file holds the key material itself, any non-empty file parses to a key, every key but the
  one with the material \<open>[66, 65, 68]\<close> passes the check, and a signature is the reversed
  message.\<close>

definition toy_externals :: Externals where
  "toy_externals =
     \<lparr>assert_aborts = True,
      player_name = ''Guest'',
      NETWORK_STREAM_ID = ''0.0.5-0'',
      SV6_HEADER_ZLIB_COMPRESSED = [83, 86, 54, 7],
      GetPrivateKeyPath = (\<lambda>name. ''keys/'' @ name @ ''.privkey''),
      GetPublicKeyPath = (\<lambda>name hash. ''keys/'' @ name @ ''-'' @ hash @ ''.pubkey''),
      GetKeysDirectory = ''keys'',
      platform_ensure_directory_exists = (\<lambda>dir. True),
      can_open_wb = (\<lambda>path. True),
      can_open_rb = (\<lambda>path. True),
      size_known = (\<lambda>path. True),
      new_char = (\<lambda>n. replicate n 0),
      uninitialised_size_t = 0,
      EVP_PKEY_CTX_set_rsa_keygen_bits = True,
      EVP_PKEY_keygen_init = True,
      EVP_PKEY_keygen = Some (EVP_PKEY (Some (RSA [107, 101, 121]))),
      BIO_new_ok = True,
      PEM_read_bio_RSAPrivateKey = (\<lambda>pem. if pem = [] then None else Some (RSA pem)),
      PEM_read_bio_RSAPublicKey = (\<lambda>pem. if pem = [] then None else Some (RSA pem)),
      RSA_check_key = (\<lambda>rsa. rsa \<noteq> RSA [66, 65, 68]),
      PEM_write_bio_RSAPrivateKey = (\<lambda>rsa. case rsa of RSA material \<Rightarrow> Some material),
      PEM_write_bio_RSAPublicKey = (\<lambda>rsa. case rsa of RSA material \<Rightarrow> Some material),
      EVP_Digest_sha1 = (\<lambda>msg. Some (take 2 (msg @ [0, 0]))),
      EVP_DigestSign = (\<lambda>pkey md. case pkey of None \<Rightarrow> SignFailed None
                                   | Some k \<Rightarrow> SignOk (rev md)),
      util_zlib_inflate = (\<lambda>body. Some body),
      game_load_network = (\<lambda>sv6. if sv6 = [] then None else Some 0)\<rparr>"

definition command :: "uint32 \<Rightarrow> uint8 \<Rightarrow> GameCommand" where
  "command t cb =
     \<lparr>tick = t, eax = 0, ebx = 0, ecx = 0, edx = 0, esi = 0, edi = 0, ebp = 0, callback = cb\<rparr>"

text \<open>A client in the middle of a session: a stored challenge, a partly received map and a
  pending command.\<close>

definition mid_session :: NetworkClient where
  "mid_session =
     NetworkClient_new\<lparr>Network2_Mode := NETWORK_MODE_CLIENT, challenge := [1, 2, 3],
                        mapBuffer := [9, 9], gameCommandQueue := [command 5 0]\<rparr>"

text \<open>Key files: one whose declared size is 4 MiB + 1 byte, one whose size is unknown,
  and an empty one (which the toy PEM parser does not decode).\<close>

definition oversized_key_file :: SDL_RWops where
  "oversized_key_file = \<lparr>rw_size = 4194305, rw_data = [45, 45], rw_pos = 0\<rparr>"

definition unknown_size_key_file :: SDL_RWops where
  "unknown_size_key_file = \<lparr>rw_size = - 1, rw_data = [45, 45], rw_pos = 0\<rparr>"

definition empty_key_file :: SDL_RWops where
  "empty_key_file = \<lparr>rw_size = 0, rw_data = [], rw_pos = 0\<rparr>"

text \<open>A key file of three bytes that decodes to the key the toy check rejects.\<close>

definition bad_key_file :: SDL_RWops where
  "bad_key_file = \<lparr>rw_size = 3, rw_data = [66, 65, 68], rw_pos = 0\<rparr>"

text \<open>The client after a first successful \<^verbatim>\<open>Begin("example.test", 11753)\<close> with the toy
  libraries: the key pair was generated and saved, and the generated key is still loaded.\<close>

definition connected_socket :: TcpSocket where
  "connected_socket = ConnectAsync ''example.test'' 11753 CreateTcpSocket"

definition connected_connection :: NetworkConnection where
  "connected_connection = NetworkConnection_new\<lparr>Socket := Some connected_socket\<rparr>"

definition connected_client :: NetworkClient where
  "connected_client =
     NetworkClient_new
       \<lparr>Network2_Mode := NETWORK_MODE_CLIENT,
        disk := [''keys/Guest.privkey'' \<mapsto> [107, 101, 121],
                 ''keys/Guest-6b65.pubkey'' \<mapsto> [107, 101, 121]],
        effects := [ChatStartLogging],
        status := NETWORK_CLIENT_STATUS_CONNECTING,
        serverConnection := Some connected_connection,
        key := \<lparr>m_ctx = Some (), m_key = Some (EVP_PKEY (Some (RSA [107, 101, 121])))\<rparr>\<rparr>"

text \<open>The same client without key files on disk. It is also the client after a first
  \<^verbatim>\<open>Begin\<close> that failed because the keys directory could not be created: the generated
  key is loaded and nothing was saved.\<close>

definition connected_client_without_key_file :: NetworkClient where
  "connected_client_without_key_file = connected_client\<lparr>disk := Map.empty\<rparr>"

text \<open>Variations of the libraries: signing fails before the signature length is written;
  failed assertions do not abort; the keys directory cannot be created.\<close>

definition sign_failing_externals :: Externals where
  "sign_failing_externals = toy_externals\<lparr>EVP_DigestSign := (\<lambda>pkey md. SignFailed None)\<rparr>"

definition release_externals :: Externals where
  "release_externals = toy_externals\<lparr>assert_aborts := False\<rparr>"

definition no_directory_externals :: Externals where
  "no_directory_externals = toy_externals\<lparr>platform_ensure_directory_exists := (\<lambda>dir. False)\<rparr>"

text \<open>Signing fails after the signature length 256 was written; signing fails before the
  length is written and the uninitialised \<^verbatim>\<open>sigsize\<close> holds \<open>2 ^ 32\<close>.\<close>

definition late_sign_failing_externals :: Externals where
  "late_sign_failing_externals =
     toy_externals\<lparr>EVP_DigestSign := (\<lambda>pkey md. SignFailed (Some 256))\<rparr>"


text \<open>The connected client after a challenge \<open>[1, 2, 3]\<close> whose signing failed: the
  challenge is stored, the disconnect reason is set, the socket was told to disconnect, and
  the key is still loaded.\<close>

definition disconnected_socket :: TcpSocket where
  "disconnected_socket = connected_socket\<lparr>Disconnect_requested := True\<rparr>"

definition refused_connection :: NetworkConnection where
  "refused_connection =
     connected_connection\<lparr>LastDisconnectReason := Some STR_MULTIPLAYER_VERIFICATION_FAILURE,
                           Socket := Some disconnected_socket\<rparr>"

definition challenged_client :: NetworkClient where
  "challenged_client =
     connected_client\<lparr>challenge := [1, 2, 3], serverConnection := Some refused_connection\<rparr>"


text \<open>More variations: no file can be opened for writing; only the private key file can be
  opened for writing; no file can be opened for reading.\<close>

definition no_private_write_externals :: Externals where
  "no_private_write_externals = toy_externals\<lparr>can_open_wb := (\<lambda>path. False)\<rparr>"

definition no_public_write_externals :: Externals where
  "no_public_write_externals =
     toy_externals\<lparr>can_open_wb := (\<lambda>path. path = ''keys/Guest.privkey'')\<rparr>"

definition no_read_externals :: Externals where
  "no_read_externals = toy_externals\<lparr>can_open_rb := (\<lambda>path. False)\<rparr>"

text \<open>A new client in a process that finds the key pair of an earlier run on disk, and one
  that finds a private key file holding the key the toy check rejects.\<close>

definition returning_client :: NetworkClient where
  "returning_client =
     NetworkClient_new\<lparr>disk := [''keys/Guest.privkey'' \<mapsto> [107, 101, 121],
                                 ''keys/Guest-6b65.pubkey'' \<mapsto> [107, 101, 121]]\<rparr>"

definition bad_key_client :: NetworkClient where
  "bad_key_client = NetworkClient_new\<lparr>disk := [''keys/Guest.privkey'' \<mapsto> [66, 65, 68]]\<rparr>"

text \<open>The connected client after a second \<^verbatim>\<open>Begin\<close> in a build whose failed assertions
  do not abort: the key file was loaded and unloaded, and logging was started again.\<close>

definition reconnected_client :: NetworkClient where
  "reconnected_client =
     connected_client\<lparr>effects := [ChatStartLogging, ChatStartLogging],
                       key := \<lparr>m_ctx = Some (), m_key = None\<rparr>\<rparr>"

text \<open>What \<^verbatim>\<open>Begin\<close> returns for the client \<open>mid_session\<close>, whose network mode was set.\<close>

definition mid_session_begun :: NetworkClient where
  "mid_session_begun =
     connected_client\<lparr>challenge := [1, 2, 3], mapBuffer := [9, 9],
                       gameCommandQueue := [command 5 0]\<rparr>"

text \<open>The client after the chunk \<open>(offset 1, [2])\<close> of a two-byte transfer arrived first.\<close>

definition after_high_chunk :: NetworkClient where
  "after_high_chunk =
     NetworkClient_new\<lparr>effects := [WindowNetworkStatusOpen 0 0, WindowNetworkStatusClose,
                                    GameLoadNetwork [0, 2], GameLoadInit, ChatShowChatHelp]\<rparr>"

section \<open>Properties\<close>

subsection \<open>Close and Unload\<close>

text \<open>
  C9. \<^verbatim>\<open>Unload()\<close> is idempotent: for every key store a second \<^verbatim>\<open>Unload\<close> changes nothing
  and the store is unloaded after the first. \<^verbatim>\<open>Close()\<close> is a total function of the state
  (it cannot fail), and closing a closed client changes nothing further.
\<close>

theorem Unload_Close_idempotent:
  "Unload (Unload k) = Unload k \<and> m_key (Unload k) = None \<and>
   Close (Close s) = Close s \<and> Network2_Mode (Close s) = NETWORK_MODE_NONE"
  by (simp add: Unload_def Close_def)

text \<open>
  C5, as the code has it. \<^verbatim>\<open>Close()\<close> clears the process-wide network mode and nothing else:
  the stored challenge, the map buffer and the command queue are what they were, and so are
  the files on disk.
\<close>

theorem Close_clears_mode_only:
  "Network2_Mode (Close s) = NETWORK_MODE_NONE \<and>
   challenge (Close s) = challenge s \<and> mapBuffer (Close s) = mapBuffer s \<and>
   gameCommandQueue (Close s) = gameCommandQueue s \<and> disk (Close s) = disk s"
  by (simp add: Close_def)

text \<open>C5 as stated fails: after \<^verbatim>\<open>Close()\<close> in the middle of a session the challenge, the
  map buffer and the command queue still hold their content.\<close>

theorem Close_session_state_counterexample:
  "challenge (Close mid_session) = [1, 2, 3] \<and> mapBuffer (Close mid_session) = [9, 9] \<and>
   gameCommandQueue (Close mid_session) = [command 5 0]"
  by (simp add: Close_def mid_session_def)

subsection \<open>Loading key files\<close>

text \<open>
  C8. For every key file whose declared size is unknown (-1) or exceeds 4 MiB,
  \<^verbatim>\<open>LoadPrivate\<close> and \<^verbatim>\<open>LoadPublic\<close> return failure, whatever the file holds and whatever
  the libraries do: the file is returned as it was (nothing was read from it) and the key
  store is unchanged (nothing was decoded). For a file with a size from 0 to 4 MiB whose
  bytes the PEM parser decodes to a key, \<^verbatim>\<open>LoadPrivate\<close> returns failure when
  \<^verbatim>\<open>RSA_check_key\<close> rejects the decoded key, and leaves the key store unchanged.
\<close>

theorem LoadPrivate_LoadPublic_size_guard:
  "(rw_size file = - 1 \<or> sint (rw_size file) > 4 * 1024 * 1024 \<longrightarrow>
      LoadPrivate ext file k = Inr (False, file, k) \<and>
      LoadPublic ext file k = Inr (False, file, k)) \<and>
   (0 \<le> sint (rw_size file) \<and> sint (rw_size file) \<le> 4 * 1024 * 1024 \<and>
    PEM_read_bio_RSAPrivateKey ext
      (fst (rw_read file (nat (sint (rw_size file)))
              (new_char ext (nat (sint (rw_size file)))))) = Some rsa \<and>
    \<not> RSA_check_key ext rsa \<longrightarrow>
      (\<exists>file'. LoadPrivate ext file k = Inr (False, file', k)))"
proof (intro conjI impI)
  assume big: "rw_size file = - 1 \<or> sint (rw_size file) > 4 * 1024 * 1024"
  show "LoadPrivate ext file k = Inr (False, file, k)"
    using big by (auto simp: LoadPrivate_def Let_def)
  show "LoadPublic ext file k = Inr (False, file, k)"
    using big by (auto simp: LoadPublic_def Let_def)
next
  assume small: "0 \<le> sint (rw_size file) \<and> sint (rw_size file) \<le> 4 * 1024 * 1024 \<and>
    PEM_read_bio_RSAPrivateKey ext
      (fst (rw_read file (nat (sint (rw_size file)))
              (new_char ext (nat (sint (rw_size file)))))) = Some rsa \<and>
    \<not> RSA_check_key ext rsa"
  then have ne: "rw_size file \<noteq> - 1"
    by auto
  show "\<exists>file'. LoadPrivate ext file k = Inr (False, file', k)"
    using small ne
    by (auto simp: LoadPrivate_def Let_def BIO_new_mem_buf_def split: prod.splits option.splits)
qed

text \<open>The theorem at a file of 4 MiB + 1 byte, at a file of unknown size and at a file of
  three bytes that decodes to a key the check rejects.\<close>

theorem LoadPrivate_LoadPublic_size_guard_witness:
  "LoadPrivate toy_externals oversized_key_file (key NetworkClient_new)
     = Inr (False, oversized_key_file, key NetworkClient_new) \<and>
   LoadPublic toy_externals oversized_key_file (key NetworkClient_new)
     = Inr (False, oversized_key_file, key NetworkClient_new) \<and>
   LoadPrivate toy_externals unknown_size_key_file (key NetworkClient_new)
     = Inr (False, unknown_size_key_file, key NetworkClient_new) \<and>
   LoadPublic toy_externals unknown_size_key_file (key NetworkClient_new)
     = Inr (False, unknown_size_key_file, key NetworkClient_new) \<and>
   PEM_read_bio_RSAPrivateKey toy_externals
     (fst (rw_read bad_key_file (nat (sint (rw_size bad_key_file)))
             (new_char toy_externals (nat (sint (rw_size bad_key_file))))))
     = Some (RSA [66, 65, 68]) \<and>
   \<not> RSA_check_key toy_externals (RSA [66, 65, 68]) \<and>
   (\<exists>file'. LoadPrivate toy_externals bad_key_file (key NetworkClient_new)
     = Inr (False, file', key NetworkClient_new))"
proof -
  have big: "sint (rw_size oversized_key_file) > 4 * 1024 * 1024"
    by (simp add: oversized_key_file_def)
  have unknown: "rw_size unknown_size_key_file = - 1"
    by (simp add: unknown_size_key_file_def)
  have bad: "0 \<le> sint (rw_size bad_key_file) \<and> sint (rw_size bad_key_file) \<le> 4 * 1024 * 1024 \<and>
      PEM_read_bio_RSAPrivateKey toy_externals
        (fst (rw_read bad_key_file (nat (sint (rw_size bad_key_file)))
                (new_char toy_externals (nat (sint (rw_size bad_key_file))))))
        = Some (RSA [66, 65, 68]) \<and>
      \<not> RSA_check_key toy_externals (RSA [66, 65, 68])"
    by (simp add: bad_key_file_def toy_externals_def rw_read_def Let_def)
  from LoadPrivate_LoadPublic_size_guard
         [of oversized_key_file toy_externals "key NetworkClient_new"] big
  have r1: "LoadPrivate toy_externals oversized_key_file (key NetworkClient_new)
              = Inr (False, oversized_key_file, key NetworkClient_new) \<and>
            LoadPublic toy_externals oversized_key_file (key NetworkClient_new)
              = Inr (False, oversized_key_file, key NetworkClient_new)"
    by blast
  from LoadPrivate_LoadPublic_size_guard
         [of unknown_size_key_file toy_externals "key NetworkClient_new"] unknown
  have r2: "LoadPrivate toy_externals unknown_size_key_file (key NetworkClient_new)
              = Inr (False, unknown_size_key_file, key NetworkClient_new) \<and>
            LoadPublic toy_externals unknown_size_key_file (key NetworkClient_new)
              = Inr (False, unknown_size_key_file, key NetworkClient_new)"
    by blast
  from LoadPrivate_LoadPublic_size_guard
         [of bad_key_file toy_externals "key NetworkClient_new" "RSA [66, 65, 68]"] bad
  have r3: "\<exists>file'. LoadPrivate toy_externals bad_key_file (key NetworkClient_new)
              = Inr (False, file', key NetworkClient_new)"
    by blast
  show ?thesis
    using r1 r2 r3 bad by blast
qed

text \<open>A file within the ceiling that does not decode: \<^verbatim>\<open>RSA_check_key\<close> receives the null
  pointer and \<^verbatim>\<open>LoadPrivate\<close> does not return.\<close>

lemma LoadPrivate_undecodable:
  "LoadPrivate toy_externals empty_key_file (key NetworkClient_new) = Inl NullDereference"
  by (simp add: LoadPrivate_def BIO_new_mem_buf_def rw_read_def empty_key_file_def
        toy_externals_def Let_def)

subsection \<open>The tick anchor\<close>

lemma RecieveTicks_anchored:
  "serverSrand0Tick s \<noteq> 0 \<Longrightarrow>
   RecieveTicks ts s = s\<lparr>serverTick := (if ts = [] then serverTick s else fst (last ts))\<rparr>"
proof (induction ts arbitrary: s)
  case Nil
  then show ?case by simp
next
  case (Cons p ts)
  obtain t r where p: "p = (t, r)" by (cases p)
  have step: "RecieveTick t r s = s\<lparr>serverTick := t\<rparr>"
    using Cons.prems by (simp add: RecieveTick_def)
  have "serverSrand0Tick (s\<lparr>serverTick := t\<rparr>) \<noteq> 0"
    using Cons.prems by simp
  from Cons.IH [OF this] show ?case
    by (simp add: p step)
qed

text \<open>
  C6, as the code has it. A successful map load re-arms the anchor (anchor tick 0 means
  unset). The first \<^verbatim>\<open>RecieveTick(tick, seed)\<close> after it stores the authoritative tick and
  the seed and the anchor tick. If that tick is not 0, every later sequence of tick messages
  changes the authoritative tick only (to the tick of the last message).
\<close>

theorem RecieveTick_anchor:
  "game_load_network ext sv6Data = Some gCurrentTicks \<longrightarrow>
     serverSrand0Tick (LoadMap ext sv6Data s) = 0 \<and>
     RecieveTick tick' srand0 (LoadMap ext sv6Data s)
       = (LoadMap ext sv6Data s)\<lparr>serverTick := tick', serverSrand0 := srand0,
                                   serverSrand0Tick := tick'\<rparr> \<and>
     (tick' \<noteq> 0 \<longrightarrow>
        RecieveTicks ts (RecieveTick tick' srand0 (LoadMap ext sv6Data s))
          = (RecieveTick tick' srand0 (LoadMap ext sv6Data s))
              \<lparr>serverTick := (if ts = [] then tick' else fst (last ts))\<rparr>)"
proof (intro impI conjI)
  assume ok: "game_load_network ext sv6Data = Some gCurrentTicks"
  show unset: "serverSrand0Tick (LoadMap ext sv6Data s) = 0"
    using ok by (simp add: LoadMap_def)
  show first: "RecieveTick tick' srand0 (LoadMap ext sv6Data s)
       = (LoadMap ext sv6Data s)\<lparr>serverTick := tick', serverSrand0 := srand0,
                                   serverSrand0Tick := tick'\<rparr>"
    using unset by (simp add: RecieveTick_def)
  assume nz: "tick' \<noteq> 0"
  have "serverSrand0Tick (RecieveTick tick' srand0 (LoadMap ext sv6Data s)) \<noteq> 0"
    using nz by (simp add: first)
  from RecieveTicks_anchored [OF this]
  show "RecieveTicks ts (RecieveTick tick' srand0 (LoadMap ext sv6Data s))
          = (RecieveTick tick' srand0 (LoadMap ext sv6Data s))
              \<lparr>serverTick := (if ts = [] then tick' else fst (last ts))\<rparr>"
    by (simp add: first)
qed

text \<open>The theorem at a load of a one-byte snapshot, followed by the ticks 100 (seed
  0xDEADBEEF), 101 and 102.\<close>

theorem RecieveTick_anchor_witness:
  "game_load_network toy_externals [1] = Some 0 \<and> (100 :: uint32) \<noteq> 0 \<and>
   serverSrand0 (RecieveTicks [(101, 7), (102, 8)]
      (RecieveTick 100 3735928559 (LoadMap toy_externals [1] NetworkClient_new))) = 3735928559 \<and>
   serverSrand0Tick (RecieveTicks [(101, 7), (102, 8)]
      (RecieveTick 100 3735928559 (LoadMap toy_externals [1] NetworkClient_new))) = 100 \<and>
   serverTick (RecieveTicks [(101, 7), (102, 8)]
      (RecieveTick 100 3735928559 (LoadMap toy_externals [1] NetworkClient_new))) = 102"
proof -
  have ok: "game_load_network toy_externals [1] = Some 0"
    by (simp add: toy_externals_def)
  have nz: "(100 :: uint32) \<noteq> 0"
    by simp
  let ?s1 = "RecieveTick 100 3735928559 (LoadMap toy_externals [1] NetworkClient_new)"
  let ?ts = "[(101, 7), (102, 8)] :: (uint32 \<times> uint32) list"
  note anchor = RecieveTick_anchor [of toy_externals "[1]" 0 NetworkClient_new 100 3735928559 ?ts]
  from anchor ok have first: "?s1 = (LoadMap toy_externals [1] NetworkClient_new)
      \<lparr>serverTick := 100, serverSrand0 := 3735928559, serverSrand0Tick := 100\<rparr>"
    by blast
  from anchor ok nz have later: "RecieveTicks ?ts ?s1
      = ?s1\<lparr>serverTick := (if ?ts = [] then 100 else fst (last ?ts))\<rparr>"
    by blast
  from later have r: "RecieveTicks ?ts ?s1 = ?s1\<lparr>serverTick := 102\<rparr>"
    by simp
  have sel: "serverSrand0 (?s1\<lparr>serverTick := 102\<rparr>) = 3735928559 \<and>
      serverSrand0Tick (?s1\<lparr>serverTick := 102\<rparr>) = 100 \<and>
      serverTick (?s1\<lparr>serverTick := 102\<rparr>) = 102"
    by (subst first, subst first) simp
  show ?thesis
    using ok nz sel by (simp only: r) simp
qed

text \<open>C6 as stated fails when the first tick after the load is 0: the anchor tick stays 0,
  which the code reads as unset, and the next tick message replaces the anchored seed.\<close>

theorem RecieveTick_anchor_counterexample:
  "serverSrand0 (RecieveTick 0 5 (LoadMap toy_externals [1] NetworkClient_new)) = 5 \<and>
   serverSrand0Tick (RecieveTick 0 5 (LoadMap toy_externals [1] NetworkClient_new)) = 0 \<and>
   serverSrand0 (RecieveTick 7 9 (RecieveTick 0 5 (LoadMap toy_externals [1] NetworkClient_new))) = 9 \<and>
   serverSrand0Tick (RecieveTick 7 9 (RecieveTick 0 5 (LoadMap toy_externals [1] NetworkClient_new))) = 7"
  by (simp add: RecieveTick_def LoadMap_def toy_externals_def NetworkClient_new_def)

subsection \<open>The command queue\<close>

lemma mset_multiset_insert: "mset (multiset_insert c q) = add_mset c (mset q)"
  by (induction q) auto

lemma set_multiset_insert: "set (multiset_insert c q) = insert c (set q)"
  by (induction q) auto

lemma sorted_multiset_insert:
  "sorted (map tick q) \<Longrightarrow> sorted (map tick (multiset_insert c q))"
  by (induction q) (auto simp: GameCommand_less_def set_multiset_insert)

lemma filter_multiset_insert:
  "sorted (map tick q) \<Longrightarrow>
   filter (\<lambda>x. tick x = t) (multiset_insert c q)
     = filter (\<lambda>x. tick x = t) q @ (if tick c = t then [c] else [])"
proof (induction q)
  case Nil
  then show ?case by simp
next
  case (Cons x q)
  show ?case
  proof (cases "GameCommand_less c x")
    case True
    then have "\<forall>y \<in> set (x # q). tick c < tick y"
      using Cons.prems by (auto simp: GameCommand_less_def)
    then have "tick c = t \<Longrightarrow> filter (\<lambda>x. tick x = t) (x # q) = []"
      by (auto simp: filter_empty_conv)
    with True show ?thesis by auto
  next
    case False
    with Cons show ?thesis by auto
  qed
qed

lemma RecieveGameCommands_queue:
  "gameCommandQueue (RecieveGameCommands cs s) = foldl (\<lambda>q c. multiset_insert c q) (gameCommandQueue s) cs"
  by (induction cs arbitrary: s) (auto simp: RecieveGameCommand_def)

lemma foldl_insert_props:
  "sorted (map tick q0) \<Longrightarrow>
   sorted (map tick (foldl (\<lambda>q c. multiset_insert c q) q0 cs)) \<and>
   mset (foldl (\<lambda>q c. multiset_insert c q) q0 cs) = mset q0 + mset cs \<and>
   (\<forall>t. filter (\<lambda>x. tick x = t) (foldl (\<lambda>q c. multiset_insert c q) q0 cs)
          = filter (\<lambda>x. tick x = t) q0 @ filter (\<lambda>x. tick x = t) cs)"
proof (induction cs arbitrary: q0)
  case Nil
  then show ?case by simp
next
  case (Cons c cs)
  have s: "sorted (map tick (multiset_insert c q0))"
    using Cons.prems by (rule sorted_multiset_insert)
  from Cons.IH [OF s] show ?case
    by (simp add: mset_multiset_insert filter_multiset_insert [OF Cons.prems])
qed

lemma takeWhile_sorted_filter:
  "sorted (map tick q) \<Longrightarrow> takeWhile (\<lambda>c. tick c \<le> t) q = filter (\<lambda>c. tick c \<le> t) q"
proof (induction q)
  case Nil
  then show ?case by simp
next
  case (Cons x q)
  show ?case
  proof (cases "tick x \<le> t")
    case True
    with Cons show ?thesis by simp
  next
    case False
    then have "\<forall>y \<in> set q. \<not> tick y \<le> t"
      using Cons.prems by fastforce
    then have "filter (\<lambda>c. tick c \<le> t) q = []"
      by (simp add: filter_empty_conv)
    with False show ?thesis by simp
  qed
qed

text \<open>
  C7. Commands with ticks 5, 2, 5, 1 received in that order and drained up to tick 5 come
  out as 1, 2, 5, 5, the two commands of tick 5 in their order of arrival. For every
  sequence of received commands the queue is sorted by tick, it is the stable sort of the
  arrival sequence (commands of one tick keep their order of arrival), and what a drain up
  to a tick returns is sorted and consists of the commands of the queue up to that tick.
\<close>

theorem command_queue_tick_order:
  "fst (DrainUpTo 5 (gameCommandQueue (RecieveGameCommands
       [command 5 0, command 2 1, command 5 2, command 1 3] NetworkClient_new)))
     = [command 1 3, command 2 1, command 5 0, command 5 2] \<and>
   sorted (map tick (gameCommandQueue (RecieveGameCommands cs (s\<lparr>gameCommandQueue := []\<rparr>)))) \<and>
   gameCommandQueue (RecieveGameCommands cs (s\<lparr>gameCommandQueue := []\<rparr>)) = sort_key tick cs \<and>
   (\<forall>k. filter (\<lambda>c. tick c = k)
           (gameCommandQueue (RecieveGameCommands cs (s\<lparr>gameCommandQueue := []\<rparr>)))
         = filter (\<lambda>c. tick c = k) cs) \<and>
   fst (DrainUpTo t (gameCommandQueue (RecieveGameCommands cs (s\<lparr>gameCommandQueue := []\<rparr>))))
     = filter (\<lambda>c. tick c \<le> t) (sort_key tick cs) \<and>
   sorted (map tick (fst (DrainUpTo t
     (gameCommandQueue (RecieveGameCommands cs (s\<lparr>gameCommandQueue := []\<rparr>))))))"
proof -
  let ?q = "gameCommandQueue (RecieveGameCommands cs (s\<lparr>gameCommandQueue := []\<rparr>))"
  have q: "?q = foldl (\<lambda>q c. multiset_insert c q) [] cs"
    by (simp add: RecieveGameCommands_queue)
  have props: "sorted (map tick ?q) \<and> mset ?q = mset cs \<and>
      (\<forall>k. filter (\<lambda>x. tick x = k) ?q = filter (\<lambda>x. tick x = k) cs)"
    using foldl_insert_props [of "[]" cs] by (simp add: q)
  have "sort_key tick cs = ?q"
  proof (rule properties_for_sort_key)
    show "mset ?q = mset cs" using props by simp
    show "sorted (map tick ?q)" using props by simp
    fix k assume "k \<in> set ?q"
    have "filter (\<lambda>x. tick x = tick k) ?q = filter (\<lambda>x. tick x = tick k) cs"
      using props by blast
    then show "filter (\<lambda>x. tick k = tick x) ?q = filter (\<lambda>x. tick k = tick x) cs"
      by (simp add: eq_commute)
  qed
  then have eq: "?q = sort_key tick cs" by simp
  have drain: "fst (DrainUpTo t ?q) = filter (\<lambda>c. tick c \<le> t) (sort_key tick cs)"
    using props takeWhile_sorted_filter [of ?q t] by (simp add: DrainUpTo_def eq)
  have concrete: "fst (DrainUpTo 5 (gameCommandQueue (RecieveGameCommands
       [command 5 0, command 2 1, command 5 2, command 1 3] NetworkClient_new)))
     = [command 1 3, command 2 1, command 5 0, command 5 2]"
    by (simp add: DrainUpTo_def RecieveGameCommand_def NetworkClient_new_def command_def
          GameCommand_less_def)
  have "sorted (map tick (filter (\<lambda>c. tick c \<le> t) ?q))"
    using props by (simp add: sorted_filter)
  then have drained_sorted: "sorted (map tick (fst (DrainUpTo t ?q)))"
    using drain eq by simp
  show ?thesis
    using props eq drain drained_sorted concrete by simp
qed

subsection \<open>Evaluation of the model\<close>

lemmas model_defs = CreateTcpSocket_def ConnectAsync_def Disconnect_def NetworkConnection_new_def
  Begin_def Close_def Guard_Assert_def SetupUserKey_def platform_file_exists_def
  SDL_RWFromFile_rb_def SDL_RWFromFile_wb_def SDL_RWclose_wb_def Generate_def SavePrivate_def
  SavePublic_def PublicKeyHash_def PublicKeyString_def LoadPrivate_def BIO_new_mem_buf_def
  rw_read_def rw_write_def c_str_def hex02x_def hex_digit_def Unload_def LoadPrivateKey_def
  Sign_def SendAuthentication_def DisconnectVerificationFailure_def HandleChallenge_def
  SendPassword_def

lemma first_Begin:
  "Begin toy_externals ''example.test'' 11753 NetworkClient_new = Inr (True, connected_client)"
  by (simp add: model_defs toy_externals_def NetworkClient_new_def connected_client_def
        connected_connection_def connected_socket_def Let_def)

subsection \<open>Begin\<close>

lemma SetupUserKey_frame:
  "SetupUserKey ext s = Inr (ok, s') \<Longrightarrow>
   Network2_Mode s' = Network2_Mode s \<and> status s' = status s \<and>
   serverConnection s' = serverConnection s"
  by (auto simp: SetupUserKey_def Let_def SDL_RWclose_wb_def
      split: if_splits option.splits sum.splits prod.splits)


lemma Begin_Close: "Begin ext host port (Close s) = Begin ext host port s"
  by (simp add: Begin_def Close_def)

lemma Begin_returns:
  assumes "Begin ext host port s = Inr (ok, s')"
  shows "Network2_Mode s' = NETWORK_MODE_CLIENT \<and>
         status s' = NETWORK_CLIENT_STATUS_CONNECTING \<and>
         serverConnection s' =
           Some (NetworkConnection_new
                           \<lparr>Socket := Some (ConnectAsync host port CreateTcpSocket)\<rparr>)"
proof -
  let ?s3 = "s\<lparr>Network2_Mode := NETWORK_MODE_CLIENT,
                serverConnection :=
                  Some (NetworkConnection_new
                           \<lparr>Socket := Some (ConnectAsync host port CreateTcpSocket)\<rparr>),
                status := NETWORK_CLIENT_STATUS_CONNECTING,
                lastConnectStatus := SOCKET_STATUS_CLOSED,
                effects := effects s @ [ChatStartLogging]\<rparr>"
  from assms obtain ok' where sk: "SetupUserKey ext ?s3 = Inr (ok', s')"
    by (auto simp: Begin_def Close_def Let_def split: if_splits sum.splits prod.splits)
  from SetupUserKey_frame [OF sk] show ?thesis
    by simp
qed

text \<open>
  C1, as the code has it. \<^verbatim>\<open>Begin\<close> does not fail because the network mode is set: its
  first statement is \<^verbatim>\<open>Close()\<close>, so it behaves as it does on the closed client, whatever
  the mode was. Whenever it returns, with success or with failure, the mode is client, the
  status is connecting and the client holds a new connection to the given host and port.
\<close>

theorem Begin_ignores_mode:
  "Begin ext host port s = Begin ext host port (Close s) \<and>
   (Begin ext host port s = Inr (ok, s') \<longrightarrow>
      Network2_Mode s' = NETWORK_MODE_CLIENT \<and>
      status s' = NETWORK_CLIENT_STATUS_CONNECTING \<and>
      serverConnection s' =
        Some (NetworkConnection_new
                           \<lparr>Socket := Some (ConnectAsync host port CreateTcpSocket)\<rparr>))"
  using Begin_returns [of ext host port s ok s'] by (simp add: Begin_Close)

text \<open>The theorem at the client \<open>mid_session\<close>, whose mode is client.\<close>

theorem Begin_ignores_mode_witness:
  "Begin toy_externals ''example.test'' 11753 mid_session = Inr (True, mid_session_begun) \<and>
   Network2_Mode mid_session_begun = NETWORK_MODE_CLIENT \<and>
   status mid_session_begun = NETWORK_CLIENT_STATUS_CONNECTING \<and>
   serverConnection mid_session_begun =
     Some (NetworkConnection_new
                           \<lparr>Socket := Some (ConnectAsync ''example.test'' 11753 CreateTcpSocket)\<rparr>)"
proof -
  have run: "Begin toy_externals ''example.test'' 11753 mid_session = Inr (True, mid_session_begun)"
    by (simp add: model_defs toy_externals_def NetworkClient_new_def connected_client_def
          connected_connection_def connected_socket_def mid_session_def mid_session_begun_def
          Let_def)
  from Begin_ignores_mode [of toy_externals "''example.test''" 11753 mid_session True
      mid_session_begun] run
  show ?thesis by blast
qed

text \<open>C1 as stated fails. On a client whose mode is set and that holds no connection,
  \<^verbatim>\<open>Begin\<close> returns success and changes the status. On a client that holds a connection it
  does not return failure either: the assertion on \<^verbatim>\<open>_serverConnection\<close> fails, and where
  assertions do not abort a second connection is created and success returned.\<close>

theorem Begin_second_connection_counterexample:
  "Network2_Mode mid_session = NETWORK_MODE_CLIENT \<and>
   status mid_session = NETWORK_CLIENT_STATUS_NONE \<and>
   Begin toy_externals ''example.test'' 11753 mid_session = Inr (True, mid_session_begun) \<and>
   status mid_session_begun = NETWORK_CLIENT_STATUS_CONNECTING \<and>
   Network2_Mode connected_client = NETWORK_MODE_CLIENT \<and>
   Begin toy_externals ''example.test'' 11753 connected_client = Inl GuardAssertFailed \<and>
   Begin release_externals ''example.test'' 11753 connected_client
     = Inr (True, reconnected_client) \<and>
   reconnected_client \<noteq> connected_client"
  by (simp add: model_defs toy_externals_def release_externals_def NetworkClient_new_def
       mid_session_def mid_session_begun_def connected_client_def reconnected_client_def
       connected_connection_def connected_socket_def Let_def)

lemma SetupUserKey_fails:
  assumes "key_setup_fails ext s" "disk t = disk s" "key t = key s"
  shows "\<exists>t'. SetupUserKey ext t = Inr (False, t')"
  using assms
  by (auto simp: key_setup_fails_def SetupUserKey_def Let_def platform_file_exists_def
        SDL_RWFromFile_rb_def SDL_RWFromFile_wb_def SDL_RWclose_wb_def
      split: if_splits option.splits sum.splits prod.splits)

text \<open>
  C4, as the code has it. Take a connect attempt that reaches key setup: the client holds no
  connection object, or failed assertions do not abort. When key setup fails in one of the
  listed ways, \<^verbatim>\<open>Begin\<close> returns failure, and the network mode it set before key setup is
  still client when it returns.
\<close>

theorem Begin_key_setup_failure:
  "Guard_Assert ext (serverConnection s = None) \<and> key_setup_fails ext s \<longrightarrow>
     (\<exists>s'. Begin ext host port s = Inr (False, s') \<and> Network2_Mode s' = NETWORK_MODE_CLIENT)"
proof
  assume a: "Guard_Assert ext (serverConnection s = None) \<and> key_setup_fails ext s"
  let ?s3 = "s\<lparr>Network2_Mode := NETWORK_MODE_CLIENT,
                serverConnection :=
                  Some (NetworkConnection_new
                           \<lparr>Socket := Some (ConnectAsync host port CreateTcpSocket)\<rparr>),
                status := NETWORK_CLIENT_STATUS_CONNECTING,
                lastConnectStatus := SOCKET_STATUS_CLOSED,
                effects := effects s @ [ChatStartLogging]\<rparr>"
  from a have "\<exists>t'. SetupUserKey ext ?s3 = Inr (False, t')"
    by (intro SetupUserKey_fails [of ext s]) simp_all
  then obtain t' where sk: "SetupUserKey ext ?s3 = Inr (False, t')" ..
  from a have res: "Begin ext host port s = Inr (False, t')"
    by (simp add: Begin_def Close_def Let_def Guard_Assert_def sk)
  from Begin_returns [OF res] res
  show "\<exists>s'. Begin ext host port s = Inr (False, s') \<and> Network2_Mode s' = NETWORK_MODE_CLIENT"
    by blast
qed

text \<open>The theorem at each listed failure, on clients that hold no connection: the keys
  directory cannot be created; the private key file cannot be opened for writing; the public
  key file cannot be opened for writing; the existing private key file cannot be opened;
  the existing private key file decodes to a key that fails the check.\<close>

theorem Begin_key_setup_failure_witness:
  "key_setup_fails no_directory_externals NetworkClient_new \<and>
   (\<exists>s'. Begin no_directory_externals ''example.test'' 11753 NetworkClient_new = Inr (False, s') \<and>
         Network2_Mode s' = NETWORK_MODE_CLIENT) \<and>
   key_setup_fails no_private_write_externals NetworkClient_new \<and>
   (\<exists>s'. Begin no_private_write_externals ''example.test'' 11753 NetworkClient_new
           = Inr (False, s') \<and>
         Network2_Mode s' = NETWORK_MODE_CLIENT) \<and>
   key_setup_fails no_public_write_externals NetworkClient_new \<and>
   (\<exists>s'. Begin no_public_write_externals ''example.test'' 11753 NetworkClient_new
           = Inr (False, s') \<and>
         Network2_Mode s' = NETWORK_MODE_CLIENT) \<and>
   key_setup_fails no_read_externals returning_client \<and>
   (\<exists>s'. Begin no_read_externals ''example.test'' 11753 returning_client = Inr (False, s') \<and>
         Network2_Mode s' = NETWORK_MODE_CLIENT) \<and>
   key_setup_fails toy_externals bad_key_client \<and>
   (\<exists>s'. Begin toy_externals ''example.test'' 11753 bad_key_client = Inr (False, s') \<and>
         Network2_Mode s' = NETWORK_MODE_CLIENT)"
proof -
  have h1: "Guard_Assert no_directory_externals (serverConnection NetworkClient_new = None) \<and>
      key_setup_fails no_directory_externals NetworkClient_new"
    by (simp add: Guard_Assert_def key_setup_fails_def no_directory_externals_def
          toy_externals_def NetworkClient_new_def platform_file_exists_def)
  have h2: "Guard_Assert no_private_write_externals (serverConnection NetworkClient_new = None) \<and>
      key_setup_fails no_private_write_externals NetworkClient_new"
    by (simp add: Guard_Assert_def key_setup_fails_def no_private_write_externals_def
          toy_externals_def NetworkClient_new_def platform_file_exists_def)
  have h3: "Guard_Assert no_public_write_externals (serverConnection NetworkClient_new = None) \<and>
      key_setup_fails no_public_write_externals NetworkClient_new"
    by (simp add: Guard_Assert_def key_setup_fails_def no_public_write_externals_def
          toy_externals_def NetworkClient_new_def platform_file_exists_def Generate_def
          PublicKeyHash_def PublicKeyString_def c_str_def hex02x_def hex_digit_def)
  have h4: "Guard_Assert no_read_externals (serverConnection returning_client = None) \<and>
      key_setup_fails no_read_externals returning_client"
    by (simp add: Guard_Assert_def key_setup_fails_def no_read_externals_def
          toy_externals_def NetworkClient_new_def returning_client_def platform_file_exists_def
          SDL_RWFromFile_rb_def)
  have h5: "Guard_Assert toy_externals (serverConnection bad_key_client = None) \<and>
      key_setup_fails toy_externals bad_key_client"
    by (simp add: Guard_Assert_def key_setup_fails_def toy_externals_def NetworkClient_new_def
          bad_key_client_def platform_file_exists_def SDL_RWFromFile_rb_def LoadPrivate_def
          BIO_new_mem_buf_def rw_read_def Let_def)
  note r1 = Begin_key_setup_failure
      [of no_directory_externals NetworkClient_new "''example.test''" 11753]
  note r2 = Begin_key_setup_failure
      [of no_private_write_externals NetworkClient_new "''example.test''" 11753]
  note r3 = Begin_key_setup_failure
      [of no_public_write_externals NetworkClient_new "''example.test''" 11753]
  note r4 = Begin_key_setup_failure
      [of no_read_externals returning_client "''example.test''" 11753]
  note r5 = Begin_key_setup_failure
      [of toy_externals bad_key_client "''example.test''" 11753]
  show ?thesis
    using h1 h2 h3 h4 h5 r1 r2 r3 r4 r5 by blast
qed

text \<open>C4 as stated fails: the directory cannot be created, \<^verbatim>\<open>Begin\<close> returns failure, and
  the network mode, none before the call, is client after it.\<close>

theorem Begin_key_setup_failure_counterexample:
  "Network2_Mode NetworkClient_new = NETWORK_MODE_NONE \<and>
   Begin no_directory_externals ''example.test'' 11753 NetworkClient_new
     = Inr (False, connected_client_without_key_file) \<and>
   Network2_Mode connected_client_without_key_file = NETWORK_MODE_CLIENT"
  by (simp add: model_defs no_directory_externals_def toy_externals_def NetworkClient_new_def
        connected_client_def connected_client_without_key_file_def connected_connection_def
        connected_socket_def Let_def)

subsection \<open>Map transfer\<close>

lemma resize_length: "length (resize n buf) = n"
  by (simp add: resize_def)

lemma resize_same: "length buf = n \<Longrightarrow> resize n buf = buf"
  by (simp add: resize_def)

lemma resize_0: "resize 0 buf = []"
  by (simp add: resize_def)

lemma LoadMap_effects: "\<exists>es. effects (LoadMap ext d s) = effects s @ es \<and> WindowNetworkStatusClose \<notin> set es"
  by (auto simp: LoadMap_def split: option.splits)

lemma ProcessMap_effects:
  "ProcessMap ext d s = Inr s' \<Longrightarrow> \<exists>es. effects s' = effects s @ es \<and> WindowNetworkStatusClose \<notin> set es"
  using LoadMap_effects [of ext _ s]
  by (auto simp: ProcessMap_def Close_def Let_def split: sum.splits if_splits option.splits)

lemma ReceiveMap_first_half:
  assumes "length data = T" "0 < T" "length (mapBuffer s) \<le> T"
  shows "ReceiveMap ext T 0 (take (T div 2) data) s
    = Inr (s\<lparr>effects := effects s @ [WindowNetworkStatusOpen (T div 2 div 1024) (T div 1024)],
             mapBuffer := take (T div 2) data @ drop (T div 2) (resize T (mapBuffer s))\<rparr>)"
proof -
  have h: "T div 2 \<noteq> T" "\<not> T < T div 2" using assms(2) by auto
  have len: "length (take (T div 2) data) = T div 2"
    using assms(1) by simp
  show ?thesis
  proof (cases "length (mapBuffer s) < T")
    case True
    then show ?thesis
      using h len by (simp add: ReceiveMap_def Let_def resize_length Memory_Copy_def)
  next
    case False
    then have eq: "length (mapBuffer s) = T" using assms(3) by simp
    then show ?thesis
      using h len by (simp add: ReceiveMap_def Let_def resize_same Memory_Copy_def)
  qed
qed

lemma ReceiveMap_second_half:
  assumes "length data = T" "length rest = T - T div 2"
  shows "ReceiveMap ext T (T div 2) (drop (T div 2) data)
           (s\<lparr>mapBuffer := take (T div 2) data @ rest\<rparr>)
    = (case ProcessMap ext data
              (s\<lparr>mapBuffer := data,
                 effects := effects s @ [WindowNetworkStatusOpen (T div 1024) (T div 1024),
                                         WindowNetworkStatusClose]\<rparr>) of
         Inl e \<Rightarrow> Inl e
       | Inr s4 \<Rightarrow> Inr (s4\<lparr>mapBuffer := []\<rparr>))"
proof -
  have l1: "length (take (T div 2) data) = T div 2"
    using assms(1) by simp
  have l2: "length (drop (T div 2) data) = T - T div 2"
    using assms(1) by simp
  have sum: "T div 2 + (T - T div 2) = T" by simp
  have copy: "Memory_Copy (take (T div 2) data @ rest) (T div 2) (drop (T div 2) data) = data"
    using assms l1 by (simp add: Memory_Copy_def)
  show ?thesis
    using assms(2) l1 l2 sum copy
    by (simp add: ReceiveMap_def Let_def resize_0 split: sum.splits)
qed

lemma ReceiveMap_in_order:
  "length data = T \<and> 0 < T \<and> length (mapBuffer s) \<le> T \<longrightarrow>
     ReceiveMaps ext [(T, 0, take (T div 2) data), (T, T div 2, drop (T div 2) data)] s
       = (case ProcessMap ext data
                 (s\<lparr>mapBuffer := data,
                    effects := effects s @ [WindowNetworkStatusOpen (T div 2 div 1024) (T div 1024),
                                            WindowNetworkStatusOpen (T div 1024) (T div 1024),
                                            WindowNetworkStatusClose]\<rparr>) of
            Inl e \<Rightarrow> Inl e
          | Inr s4 \<Rightarrow> Inr (s4\<lparr>mapBuffer := []\<rparr>))"
proof
  assume a: "length data = T \<and> 0 < T \<and> length (mapBuffer s) \<le> T"
  let ?s0 = "s\<lparr>effects := effects s @ [WindowNetworkStatusOpen (T div 2 div 1024) (T div 1024)]\<rparr>"
  let ?rest = "drop (T div 2) (resize T (mapBuffer s))"
  have first: "ReceiveMap ext T 0 (take (T div 2) data) s
      = Inr (?s0\<lparr>mapBuffer := take (T div 2) data @ ?rest\<rparr>)"
    using ReceiveMap_first_half [of data T s ext] a by simp
  have "length ?rest = T - T div 2"
    by (simp add: resize_length)
  from ReceiveMap_second_half [of data T ?rest ext ?s0, OF _ this] a
  have second: "ReceiveMap ext T (T div 2) (drop (T div 2) data)
           (?s0\<lparr>mapBuffer := take (T div 2) data @ ?rest\<rparr>)
    = (case ProcessMap ext data
              (s\<lparr>mapBuffer := data,
                 effects := effects s @ [WindowNetworkStatusOpen (T div 2 div 1024) (T div 1024),
                                         WindowNetworkStatusOpen (T div 1024) (T div 1024),
                                         WindowNetworkStatusClose]\<rparr>) of
         Inl e \<Rightarrow> Inl e
       | Inr s4 \<Rightarrow> Inr (s4\<lparr>mapBuffer := []\<rparr>))"
    by simp
  show "ReceiveMaps ext [(T, 0, take (T div 2) data), (T, T div 2, drop (T div 2) data)] s
       = (case ProcessMap ext data
                 (s\<lparr>mapBuffer := data,
                    effects := effects s @ [WindowNetworkStatusOpen (T div 2 div 1024) (T div 1024),
                                            WindowNetworkStatusOpen (T div 1024) (T div 1024),
                                            WindowNetworkStatusClose]\<rparr>) of
            Inl e \<Rightarrow> Inl e
          | Inr s4 \<Rightarrow> Inr (s4\<lparr>mapBuffer := []\<rparr>))"
    by (simp add: first second split: sum.splits)
qed

lemma ReceiveMap_completion_iff:
  assumes "ReceiveMap ext totalDataSize offset dataChunk s = Inr s'"
  shows "(WindowNetworkStatusClose \<in> set (drop (length (effects s)) (effects s')))
           = (offset + length dataChunk = totalDataSize)"
proof (cases "offset + length dataChunk = totalDataSize")
  case True
  then show ?thesis
    using assms
    by (auto simp: ReceiveMap_def Let_def split: if_splits sum.splits dest!: ProcessMap_effects)
next
  case False
  then show ?thesis
    using assms
    by (auto simp: ReceiveMap_def Let_def split: if_splits sum.splits)
qed

text \<open>
  C2, as the code has it. For a transfer of \<open>T \<ge> 1\<close> bytes into a buffer that is not longer
  than \<open>T\<close>, the chunks \<open>(0, bytes 0..T/2)\<close> and \<open>(T/2, bytes T/2..T)\<close> fed in this order
  complete the transfer at the second chunk, and the buffer handed to \<^verbatim>\<open>ProcessMap\<close> is the
  \<open>T\<close> bytes of the two chunks. Every call of \<^verbatim>\<open>ReceiveMap\<close> that returns completes the
  transfer (closes the status window and processes the map) exactly when
  \<open>offset + dataChunkSize = totalDataSize\<close>.
\<close>

theorem ReceiveMap_two_chunks:
  "(length data = T \<and> 0 < T \<and> length (mapBuffer s) \<le> T \<longrightarrow>
     ReceiveMaps ext [(T, 0, take (T div 2) data), (T, T div 2, drop (T div 2) data)] s
       = (case ProcessMap ext data
                 (s\<lparr>mapBuffer := data,
                    effects := effects s @ [WindowNetworkStatusOpen (T div 2 div 1024) (T div 1024),
                                            WindowNetworkStatusOpen (T div 1024) (T div 1024),
                                            WindowNetworkStatusClose]\<rparr>) of
            Inl e \<Rightarrow> Inl e
          | Inr s4 \<Rightarrow> Inr (s4\<lparr>mapBuffer := []\<rparr>))) \<and>
   (ReceiveMap ext totalDataSize offset dataChunk s = Inr s' \<longrightarrow>
     (WindowNetworkStatusClose \<in> set (drop (length (effects s)) (effects s')))
       = (offset + length dataChunk = totalDataSize))"
  using ReceiveMap_in_order [of data T s ext]
    ReceiveMap_completion_iff [of ext totalDataSize offset dataChunk s s']
  by blast

text \<open>The theorem at the two-byte transfer \<open>[1, 2]\<close> into a new client, and at its second
  chunk arriving first.\<close>

theorem ReceiveMap_two_chunks_witness:
  "length [1, 2 :: uint8] = 2 \<and> length (mapBuffer NetworkClient_new) \<le> 2 \<and>
   map_sum id effects
     (ReceiveMaps toy_externals [(2, 0, take (2 div 2) [1, 2]), (2, 2 div 2, drop (2 div 2) [1, 2])]
        NetworkClient_new)
     = Inr [WindowNetworkStatusOpen 0 0, WindowNetworkStatusOpen 0 0, WindowNetworkStatusClose,
            GameLoadNetwork [1, 2], GameLoadInit, ChatShowChatHelp] \<and>
   ReceiveMap toy_externals 2 1 [2] NetworkClient_new = Inr after_high_chunk \<and>
   WindowNetworkStatusClose
     \<in> set (drop (length (effects NetworkClient_new)) (effects after_high_chunk))"
proof -
  have hyp1: "length [1, 2 :: uint8] = 2 \<and> 0 < (2 :: nat) \<and> length (mapBuffer NetworkClient_new) \<le> 2"
    by (simp add: NetworkClient_new_def)
  have hyp2: "ReceiveMap toy_externals 2 1 [2] NetworkClient_new = Inr after_high_chunk"
    by (simp add: ReceiveMap_def ProcessMap_def LoadMap_def String_Equals_def Memory_Copy_def
          resize_def toy_externals_def NetworkClient_new_def after_high_chunk_def Let_def)
  note inst = ReceiveMap_two_chunks [of "[1, 2]" 2 NetworkClient_new toy_externals 2 1 "[2]"
      after_high_chunk]
  from inst hyp1 have run: "ReceiveMaps toy_externals
        [(2, 0, take (2 div 2) [1, 2]), (2, 2 div 2, drop (2 div 2) [1, 2])] NetworkClient_new
      = (case ProcessMap toy_externals [1, 2]
                 (NetworkClient_new\<lparr>mapBuffer := [1, 2],
                    effects := effects NetworkClient_new @
                      [WindowNetworkStatusOpen (2 div 2 div 1024) (2 div 1024),
                       WindowNetworkStatusOpen (2 div 1024) (2 div 1024),
                       WindowNetworkStatusClose]\<rparr>) of
            Inl e \<Rightarrow> Inl e
          | Inr s4 \<Rightarrow> Inr (s4\<lparr>mapBuffer := []\<rparr>))"
    by blast
  have eff: "map_sum id effects (ReceiveMaps toy_externals
        [(2, 0, take (2 div 2) [1, 2]), (2, 2 div 2, drop (2 div 2) [1, 2])] NetworkClient_new)
     = Inr [WindowNetworkStatusOpen 0 0, WindowNetworkStatusOpen 0 0, WindowNetworkStatusClose,
            GameLoadNetwork [1, 2], GameLoadInit, ChatShowChatHelp]"
    by (subst run)
       (simp add: ProcessMap_def LoadMap_def String_Equals_def toy_externals_def
          NetworkClient_new_def)
  from inst hyp2 have closes: "WindowNetworkStatusClose
     \<in> set (drop (length (effects NetworkClient_new)) (effects after_high_chunk))"
    by simp
  show ?thesis
    using hyp1 hyp2 eff closes by blast
qed

text \<open>C2 as stated fails in the reverse order. The chunk \<open>(1, [2])\<close> of the two-byte transfer
  \<open>[1, 2]\<close> arrives first and satisfies \<open>offset + dataChunkSize = totalDataSize\<close>: the map
  is processed at once with the bytes \<open>[0, 2]\<close>, and the chunk \<open>(0, [1])\<close> that follows
  completes nothing and leaves \<open>[1, 0]\<close> in the buffer. In offset order the bytes handed
  over are \<open>[1, 2]\<close>.\<close>

theorem ReceiveMap_reverse_order_counterexample:
  "map_sum id effects (ReceiveMaps toy_externals [(2, 1, [2]), (2, 0, [1])] NetworkClient_new)
     = Inr [WindowNetworkStatusOpen 0 0, WindowNetworkStatusClose, GameLoadNetwork [0, 2],
            GameLoadInit, ChatShowChatHelp, WindowNetworkStatusOpen 0 0] \<and>
   map_sum id mapBuffer (ReceiveMaps toy_externals [(2, 1, [2]), (2, 0, [1])] NetworkClient_new)
     = Inr [1, 0] \<and>
   map_sum id effects (ReceiveMaps toy_externals [(2, 0, [1]), (2, 1, [2])] NetworkClient_new)
     = Inr [WindowNetworkStatusOpen 0 0, WindowNetworkStatusOpen 0 0, WindowNetworkStatusClose,
            GameLoadNetwork [1, 2], GameLoadInit, ChatShowChatHelp]"
  by (simp add: ReceiveMap_def ProcessMap_def LoadMap_def String_Equals_def Memory_Copy_def
        resize_def toy_externals_def NetworkClient_new_def Let_def)

subsection \<open>Authentication\<close>



lemma HandleChallenge_sign_failure_state:
  "HandleChallenge late_sign_failing_externals [1, 2, 3] connected_client = Inr challenged_client"
  by (simp add: model_defs toy_externals_def late_sign_failing_externals_def
        NetworkClient_new_def connected_client_def connected_connection_def connected_socket_def
        challenged_client_def refused_connection_def disconnected_socket_def Let_def
        char_of_def bit_Suc_0_iff)




text \<open>
  C3 fails on the code. The connected client receives a challenge, its private key file
  loads, and signing fails: \<^verbatim>\<open>HandleChallenge\<close> returns before \<^verbatim>\<open>_key.Unload()\<close> and the
  private key is still loaded. With the key file missing, \<^verbatim>\<open>HandleChallenge\<close> and
  \<^verbatim>\<open>SendPassword\<close> return with the key that was loaded before the call. On the same
  signing failure \<^verbatim>\<open>SendPassword\<close> does unload the key, as \<^verbatim>\<open>HandleChallenge\<close> does when
  signing succeeds.
\<close>

theorem HandleChallenge_sign_failure_keeps_key:
  "map_sum id (m_key \<circ> key)
     (HandleChallenge sign_failing_externals [1, 2, 3] connected_client)
     = Inr (Some (EVP_PKEY (Some (RSA [107, 101, 121])))) \<and>
   map_sum id (m_key \<circ> key)
     (HandleChallenge toy_externals [1, 2, 3] connected_client_without_key_file)
     = Inr (Some (EVP_PKEY (Some (RSA [107, 101, 121])))) \<and>
   map_sum id (m_key \<circ> key)
     (SendPassword toy_externals ''secret'' connected_client_without_key_file)
     = Inr (Some (EVP_PKEY (Some (RSA [107, 101, 121])))) \<and>
   map_sum id (m_key \<circ> key)
     (SendPassword sign_failing_externals ''secret'' connected_client)
     = Inr None \<and>
   map_sum id (m_key \<circ> key)
     (HandleChallenge toy_externals [1, 2, 3] connected_client)
     = Inr None"
  by (simp add: model_defs toy_externals_def sign_failing_externals_def NetworkClient_new_def
       connected_client_def connected_client_without_key_file_def connected_connection_def
       connected_socket_def Let_def)

end
